theory Spec2Isabelle
  imports Complex_Main "HOL-Library.Sublist" "HOL-Library.Multiset" "HOL-Library.Monad_Syntax"
    "HOL-Library.Log_Nat"
begin

section \<open>Shared data: status labels, JavaScript numbers, dates, query outcomes\<close>

text \<open>
  The status labels that the monitoring widgets attach to a row
  (\<^verbatim>\<open>'active' | 'warning' | 'error' | 'unknown' | 'deprecated'\<close>).
\<close>

datatype StatusLabel = Active | Warning | Error | Unknown | Deprecated

text \<open>
  A JavaScript number that may be \<^verbatim>\<open>NaN\<close>. The time value of a \<^verbatim>\<open>Date\<close> is an
  integer number of milliseconds, or \<^verbatim>\<open>NaN\<close> for an Invalid Date. Every comparison
  with \<^verbatim>\<open>NaN\<close> is false.
\<close>

datatype 'a number = NaN | Num 'a

fun num_less :: "('a::linorder) number \<Rightarrow> 'a \<Rightarrow> bool" where
  "num_less (Num a) b = (a < b)"
| "num_less NaN b = False"

fun num_greater :: "('a::linorder) number \<Rightarrow> 'a \<Rightarrow> bool" where
  "num_greater (Num a) b = (b < a)"
| "num_greater NaN b = False"

text \<open>
  \<^verbatim>\<open>new Date(s)\<close> on a string is a function of the string and of the host (engine and
  time zone); it is a parameter \<open>parse\<close> of every function below, giving the time value in
  milliseconds, \<open>NaN\<close> for a string that does not parse. \<^verbatim>\<open>new Date()\<close> and
  \<^verbatim>\<open>Date.now()\<close> are the parameter \<open>now\<close>.
\<close>

type_synonym date_parser = "string \<Rightarrow> int number"

text \<open>Division of integers rounding toward zero (\<^verbatim>\<open>Math.trunc\<close> of the quotient).\<close>

definition trunc_div :: "int \<Rightarrow> int \<Rightarrow> int" where
  "trunc_div d m = (if d < 0 then - ((- d) div m) else d div m)"

text \<open>
  Row counts are JavaScript numbers, that is doubles, with whole values. A whole number up
  to \<open>2^53\<close> in size is a double; a larger one is rounded to 53 significant bits, to the
  nearest such value and, halfway between two, to the one with the even significand.
  \<^verbatim>\<open>a + b\<close> on whole doubles is the exact sum rounded in this way. (A sum of row counts
  stays far below the largest double, so the overflow to \<^verbatim>\<open>Infinity\<close> is left out.)
\<close>

definition round_double :: "int \<Rightarrow> int" where
  "round_double x =
     (if \<bar>x\<bar> \<le> 9007199254740992 then x
      else (let u = 2 ^ (nat (bitlen \<bar>x\<bar>) - 53);
                q = \<bar>x\<bar> div u;
                r = \<bar>x\<bar> mod u;
                m = (if 2 * r < u then q
                     else if u < 2 * r then q + 1
                     else if even q then q
                     else q + 1)
            in sgn x * (m * u)))"

definition js_add :: "int \<Rightarrow> int \<Rightarrow> int" where
  "js_add a b = round_double (a + b)"

text \<open>
  \<^verbatim>\<open>differenceInHours(dateLeft, dateRight)\<close> of the date-fns library: the difference of
  the two time values in milliseconds, divided by 3600000 and truncated toward zero;
  \<^verbatim>\<open>NaN\<close> when either date is invalid. The dates are given by their time values. The
  library divides in floating point; that quotient is monotone in the difference and exact
  at whole hours, so its comparison with a whole number of hours is the one computed here.
\<close>

fun differenceInHours :: "int number \<Rightarrow> int number \<Rightarrow> int number" where
  "differenceInHours (Num l) (Num r) = Num (trunc_div (l - r) 3600000)"
| "differenceInHours _ _ = NaN"

text \<open>
  A row of a collection: column name to value, \<open>None\<close> for \<^verbatim>\<open>null\<close> or a missing column.
  A string is truthy when it is not empty.
\<close>

type_synonym row = "string \<rightharpoonup> string"

fun truthy :: "string option \<Rightarrow> bool" where
  "truthy None = False"
| "truthy (Some s) = (s \<noteq> [])"

text \<open>
  What awaiting a query of the data client gives: the promise rejects with an error
  message, or resolves to \<^verbatim>\<open>{ data, error, count }\<close>.
\<close>

record pg_error =
  code :: string
  message :: string

record 'd response =
  data :: "'d option"
  error :: "pg_error option"
  count :: "int option"

datatype 'd outcome = Rejected string | Resolved "'d response"

text \<open>
  \<^verbatim>\<open>error && error.code !== 'PGRST116'\<close>: the read reports an error other than
  "no rows" (the code a \<^verbatim>\<open>.single()\<close> read gives when the collection is empty).
\<close>

definition readFailed :: "'d response \<Rightarrow> bool" where
  "readFailed r = (case error r of None \<Rightarrow> False | Some e \<Rightarrow> code e \<noteq> ''PGRST116'')"

section \<open>DashboardCustomizeModal\<close>

record DashboardWidget =
  key :: string
  label :: string
  icon :: string
  visible :: bool

definition DEFAULT_WIDGETS :: "DashboardWidget list" where
  "DEFAULT_WIDGETS =
    [\<lparr>key = ''leads'', label = ''My Leads'', icon = ''FileText'', visible = True\<rparr>,
     \<lparr>key = ''contacts'', label = ''My Contacts'', icon = ''Users'', visible = True\<rparr>,
     \<lparr>key = ''deals'', label = ''My Deals'', icon = ''Briefcase'', visible = True\<rparr>,
     \<lparr>key = ''actionItems'', label = ''Action Items'', icon = ''Clock'', visible = True\<rparr>,
     \<lparr>key = ''performance'', label = ''My Performance'', icon = ''TrendingUp'', visible = True\<rparr>,
     \<lparr>key = ''quickActions'', label = ''Quick Actions'', icon = ''Zap'', visible = True\<rparr>,
     \<lparr>key = ''leadStatus'', label = ''Lead Status Overview'', icon = ''BarChart3'', visible = True\<rparr>]"

text \<open>The effect that initialises the \<open>widgets\<close> state from the \<open>visibleWidgets\<close> prop.\<close>

definition initialWidgets :: "string list \<Rightarrow> DashboardWidget list" where
  "initialWidgets visibleWidgets =
     map (\<lambda>w. w\<lparr>visible := key w \<in> set visibleWidgets\<rparr>) DEFAULT_WIDGETS"

definition toggleWidget :: "string \<Rightarrow> DashboardWidget list \<Rightarrow> DashboardWidget list" where
  "toggleWidget k prev = map (\<lambda>w. if key w = k then w\<lparr>visible := \<not> visible w\<rparr> else w) prev"

text \<open>\<open>handleSave\<close>: the list handed to \<open>onSave\<close>.\<close>

definition handleSave :: "DashboardWidget list \<Rightarrow> string list" where
  "handleSave widgets = map key (filter visible widgets)"

definition handleReset :: "DashboardWidget list" where
  "handleReset = map (\<lambda>w. w\<lparr>visible := True\<rparr>) DEFAULT_WIDGETS"

section \<open>SystemStatusSettings\<close>

record TableStats =
  table_name :: string
  row_count :: int
  stat_icon :: string

record SystemStats =
  tables :: "TableStats list"
  totalRecords :: int
  registeredUsers :: int
  lastBackup :: "string option"
  lastBackupError :: bool
  storageUsed :: rat
  keepAliveStatus :: StatusLabel
  lastKeepAlive :: "string option"
  queryErrors :: "string list"

record table_config =
  cfg_name :: string
  cfg_icon :: string
  cfg_label :: string

definition TABLE_CONFIG :: "table_config list" where
  "TABLE_CONFIG =
    [\<lparr>cfg_name = ''leads'', cfg_icon = ''FileText'', cfg_label = ''Leads''\<rparr>,
     \<lparr>cfg_name = ''contacts'', cfg_icon = ''Users'', cfg_label = ''Contacts''\<rparr>,
     \<lparr>cfg_name = ''accounts'', cfg_icon = ''Building2'', cfg_label = ''Accounts''\<rparr>,
     \<lparr>cfg_name = ''deals'', cfg_icon = ''Table2'', cfg_label = ''Deals''\<rparr>,
     \<lparr>cfg_name = ''meetings'', cfg_icon = ''Calendar'', cfg_label = ''Meetings''\<rparr>,
     \<lparr>cfg_name = ''tasks'', cfg_icon = ''CheckCircle'', cfg_label = ''Tasks''\<rparr>,
     \<lparr>cfg_name = ''email_history'', cfg_icon = ''Mail'', cfg_label = ''Email History''\<rparr>,
     \<lparr>cfg_name = ''profiles'', cfg_icon = ''UserCheck'', cfg_label = ''Profiles''\<rparr>,
     \<lparr>cfg_name = ''notifications'', cfg_icon = ''Bell'', cfg_label = ''Notifications''\<rparr>]"

text \<open>
  The component state held by \<open>useState\<close>; \<open>fetchError\<close> is the source's \<open>error\<close>.
\<close>

record SystemStatusState =
  stats :: "SystemStats option"
  loading :: bool
  fetchError :: "string option"
  lastRefresh :: int
  autoRefresh :: bool

text \<open>
  The reads that one run of \<open>fetchSystemStats\<close> awaits: the count of each configured
  table (by table name), the last backup, the last keep-alive row and the count of
  profiles.
\<close>

record sys_reads =
  countReads :: "string \<Rightarrow> row list outcome"
  backupRead :: "row outcome"
  keepAliveRead :: "row outcome"
  profilesRead :: "row list outcome"

text \<open>
  The callback mapped over \<open>TABLE_CONFIG\<close>: the table's entry, and what it pushes on
  \<open>queryErrors\<close>. \<^verbatim>\<open>count || 0\<close> is 0 for a null count.
\<close>

definition countTable :: "table_config \<Rightarrow> row list outcome \<Rightarrow> TableStats \<times> string list" where
  "countTable config res =
     (case res of
        Rejected msg \<Rightarrow>
          (\<lparr>table_name = cfg_name config, row_count = 0, stat_icon = cfg_icon config\<rparr>,
           [cfg_name config @ '': '' @ msg])
      | Resolved r \<Rightarrow>
          (case error r of
             Some e \<Rightarrow>
               (\<lparr>table_name = cfg_name config, row_count = 0, stat_icon = cfg_icon config\<rparr>,
                [cfg_name config @ '': '' @ message e])
           | None \<Rightarrow>
               (\<lparr>table_name = cfg_name config,
                 row_count = (case count r of None \<Rightarrow> 0 | Some c \<Rightarrow> c),
                 stat_icon = cfg_icon config\<rparr>, [])))"

text \<open>The block that fetches the last backup: \<open>(lastBackup, lastBackupError)\<close>.\<close>

definition backupBlock :: "row outcome \<Rightarrow> string option \<times> bool" where
  "backupBlock res =
     (case res of
        Rejected msg \<Rightarrow> (None, True)
      | Resolved r \<Rightarrow>
          if readFailed r
          then (None, True)
          else ((case data r of
                   None \<Rightarrow> None
                 | Some d \<Rightarrow> if truthy (d ''created_at'') then d ''created_at'' else None),
                False))"

text \<open>
  The block that fetches the keep-alive status: \<open>(keepAliveStatus, lastKeepAlive)\<close>.
  Both start as \<open>unknown\<close> and \<open>null\<close>; a rejected read is ignored.
\<close>

definition keepAliveBlock :: "date_parser \<Rightarrow> int \<Rightarrow> row outcome \<Rightarrow> StatusLabel \<times> string option" where
  "keepAliveBlock parse now res =
     (case res of
        Rejected msg \<Rightarrow> (Unknown, None)
      | Resolved r \<Rightarrow>
          (case data r of
             None \<Rightarrow> (Unknown, None)
           | Some keepAliveData \<Rightarrow>
               (case keepAliveData ''Able to read DB'' of
                  None \<Rightarrow> (Unknown, None)
                | Some ts \<Rightarrow>
                    if ts = [] then (Unknown, None)
                    else
                      (let hoursAgo = differenceInHours (Num now) (parse ts)
                       in (if num_less hoursAgo 25 then Active
                           else if num_less hoursAgo 48 then Warning
                           else Error,
                           Some ts)))))"

text \<open>
  \<open>fetchSystemStats\<close>. The counts are awaited together and pushed in the order of
  \<open>TABLE_CONFIG\<close>, each adding its \<open>row_count\<close> to \<open>totalRecords\<close> with the
  addition of doubles; \<open>queryErrors\<close> collects the messages (in the source in the order in
  which the reads complete, here in the order of the tables). The array is then sorted in
  place by \<^verbatim>\<open>b.row_count - a.row_count\<close>, a stable sort. A rejection of the last read
  (the count of profiles) is the only one that reaches the outer handler, which sets
  the error text and leaves \<open>stats\<close> as it was. \<open>storageUsed\<close> is \<open>totalRecords * 0.001\<close>,
  kept here as an exact fraction.
\<close>

definition fetchSystemStats ::
    "date_parser \<Rightarrow> int \<Rightarrow> sys_reads \<Rightarrow> SystemStatusState \<Rightarrow> SystemStatusState" where
  "fetchSystemStats parse now reads s =
     (let results = map (\<lambda>config. countTable config (countReads reads (cfg_name config))) TABLE_CONFIG;
          errs = concat (map snd results);
          tableStats = map fst results;
          total = fold (\<lambda>result acc. js_add acc (row_count result)) tableStats 0;
          sortedStats = sort_key (\<lambda>t. - row_count t) tableStats;
          backup = backupBlock (backupRead reads);
          keepAliveRes = keepAliveBlock parse now (keepAliveRead reads)
      in case profilesRead reads of
           Rejected msg \<Rightarrow>
             s\<lparr>loading := False,
               fetchError := Some (if msg = [] then ''Failed to fetch system statistics'' else msg)\<rparr>
         | Resolved r \<Rightarrow>
             s\<lparr>stats := Some
                 \<lparr>tables = sortedStats,
                  totalRecords = total,
                  registeredUsers = (case count r of None \<Rightarrow> 0 | Some c \<Rightarrow> c),
                  lastBackup = fst backup,
                  lastBackupError = snd backup,
                  storageUsed = of_int total / 1000,
                  keepAliveStatus = fst keepAliveRes,
                  lastKeepAlive = snd keepAliveRes,
                  queryErrors = errs\<rparr>,
               loading := False,
               fetchError := None,
               lastRefresh := now\<rparr>)"

section \<open>CronJobMonitoring\<close>

record KeepAliveStatus =
  lastPing :: "string option"
  status :: StatusLabel
  hoursAgo :: "int number option"

text \<open>
  \<open>fetchKeepAliveStatus\<close>: the value handed to \<open>setKeepAlive\<close>, which replaces the
  whole \<open>keepAlive\<close> state on every path.
\<close>

definition fetchKeepAliveStatus :: "date_parser \<Rightarrow> int \<Rightarrow> row outcome \<Rightarrow> KeepAliveStatus" where
  "fetchKeepAliveStatus parse now res =
     (case res of
        Rejected msg \<Rightarrow> \<lparr>lastPing = None, status = Error, hoursAgo = None\<rparr>
      | Resolved r \<Rightarrow>
          if readFailed r
          then \<lparr>lastPing = None, status = Error, hoursAgo = None\<rparr>
          else
            (case data r of
               None \<Rightarrow> \<lparr>lastPing = None, status = Unknown, hoursAgo = None\<rparr>
             | Some d \<Rightarrow>
                 (case d ''Able to read DB'' of
                    None \<Rightarrow> \<lparr>lastPing = None, status = Unknown, hoursAgo = None\<rparr>
                  | Some ts \<Rightarrow>
                      if ts = [] then \<lparr>lastPing = None, status = Unknown, hoursAgo = None\<rparr>
                      else
                        (let h = differenceInHours (Num now) (parse ts)
                         in \<lparr>lastPing = Some ts,
                             status = (if num_greater h 48 then Error
                                       else if num_greater h 25 then Warning
                                       else Active),
                             hoursAgo = Some h\<rparr>))))"

section \<open>EdgeFunctionMonitor\<close>

datatype Category = Email | Task | Meeting | System | Utility



text \<open>
  \<^verbatim>\<open>(Date.now() - date.getTime()) / (1000 * 60 * 60)\<close>: the age in hours as a fraction,
  \<^verbatim>\<open>NaN\<close> for an Invalid Date. The source divides in floating point; that quotient is
  monotone in the age and exact at 168 hours, so the comparison with 168 is the one
  computed here.
\<close>

fun hoursSince :: "int \<Rightarrow> int number \<Rightarrow> rat number" where
  "hoursSince now (Num t) = Num (of_int (now - t) / 3600000)"
| "hoursSince now NaN = NaN"

text \<open>\<open>getStatus(data, field)\<close>: \<open>(status, lastActivity)\<close>.\<close>

definition getStatus ::
    "date_parser \<Rightarrow> int \<Rightarrow> row list response \<Rightarrow> string \<Rightarrow> StatusLabel \<times> string option" where
  "getStatus parse now res field =
     (case data res of
        None \<Rightarrow> (Unknown, None)
      | Some rows \<Rightarrow>
          (case rows of
             [] \<Rightarrow> (Unknown, None)
           | r # rest \<Rightarrow>
               (case r field of
                  None \<Rightarrow> (Unknown, None)
                | Some activityDate \<Rightarrow>
                    if activityDate = [] then (Unknown, None)
                    else
                      (let h = hoursSince now (parse activityDate)
                       in (if num_less h 168 then Active else Unknown, Some activityDate)))))"











section \<open>Timestamps carried by a read, and example inputs\<close>

text \<open>The keep-alive timestamp of a resolved single-row read: \<open>None\<close> when the row is
  absent or its \<^verbatim>\<open>'Able to read DB'\<close> column is null.\<close>

definition keepAliveTimestamp :: "row response \<Rightarrow> string option" where
  "keepAliveTimestamp r = (case data r of None \<Rightarrow> None | Some d \<Rightarrow> d ''Able to read DB'')"

text \<open>The activity timestamp that \<open>getStatus\<close> reads: column \<open>field\<close> of the first row.\<close>

definition activityTimestamp :: "string \<Rightarrow> row list response \<Rightarrow> string option" where
  "activityTimestamp field res =
     (case data res of None \<Rightarrow> None | Some rows \<Rightarrow> (case rows of [] \<Rightarrow> None | r # rest \<Rightarrow> r field))"

text \<open>
  Example inputs. The example date parser knows one timestamp, 2024-03-10 12:30 UTC, and
  takes every other string as malformed.
\<close>

definition exampleParse :: date_parser where
  "exampleParse s = (if s = ''2024-03-10T12:30:00.000Z'' then Num 1710073800000 else NaN)"

definition keepAliveRow :: "string \<Rightarrow> row" where
  "keepAliveRow ts c = (if c = ''Able to read DB'' then Some ts else None)"

definition activityRow :: "string \<Rightarrow> string \<Rightarrow> row" where
  "activityRow field ts c = (if c = field then Some ts else None)"

definition rowRead :: "row \<Rightarrow> row outcome" where
  "rowRead r = Resolved \<lparr>data = Some r, error = None, count = None\<rparr>"


definition countRead :: "int \<Rightarrow> row list outcome" where
  "countRead n = Resolved \<lparr>data = None, error = None, count = Some n\<rparr>"

definition errorResponse :: "string \<Rightarrow> string \<Rightarrow> 'd response" where
  "errorResponse c m = \<lparr>data = None, error = Some \<lparr>code = c, message = m\<rparr>, count = None\<rparr>"

definition exampleCounts :: "string \<Rightarrow> row list outcome" where
  "exampleCounts n =
     (if n = ''leads'' then countRead 12
      else if n = ''deals'' then Rejected ''Failed to fetch''
      else if n = ''tasks'' then countRead 30
      else if n = ''meetings'' then Resolved (errorResponse ''42501'' ''permission denied'')
      else countRead 0)"

definition exampleSysReads :: "string \<Rightarrow> sys_reads" where
  "exampleSysReads ts =
     \<lparr>countReads = exampleCounts,
      backupRead = Resolved (errorResponse ''PGRST116'' ''no rows''),
      keepAliveRead = rowRead (keepAliveRow ts),
      profilesRead = countRead 4\<rparr>"

text \<open>Reads in which the first table holds \<open>2^53\<close> rows and the second one row.\<close>

definition hugeCounts :: "string \<Rightarrow> row list outcome" where
  "hugeCounts n =
     (if n = ''leads'' then countRead 9007199254740992
      else if n = ''contacts'' then countRead 1
      else countRead 0)"

definition hugeSysReads :: sys_reads where
  "hugeSysReads =
     \<lparr>countReads = hugeCounts,
      backupRead = Resolved (errorResponse ''PGRST116'' ''no rows''),
      keepAliveRead = Resolved (errorResponse ''PGRST116'' ''no rows''),
      profilesRead = countRead 4\<rparr>"

text \<open>The sum of \<open>row_count\<close> over the tables of the published statistics.\<close>

definition sumOfRows :: "SystemStats \<Rightarrow> int" where
  "sumOfRows st = sum_list (map row_count (tables st))"

definition initialSysState :: SystemStatusState where
  "initialSysState =
     \<lparr>stats = None, loading = True, fetchError = None, lastRefresh = 0, autoRefresh = False\<rparr>"





section \<open>Properties\<close>

subsection \<open>Truncating division against whole hours\<close>

lemma int_div_less_iff:
  fixes d m k :: int
  assumes "0 < m"
  shows "d div m < k \<longleftrightarrow> d < k * m"
proof -
  define q where "q = d div m"
  define r where "r = d mod m"
  have deq: "d = q * m + r" by (simp add: q_def r_def)
  have r0: "0 \<le> r" and rm: "r < m" using assms by (simp_all add: r_def)
  have "q < k \<longleftrightarrow> d < k * m"
  proof
    assume "q < k"
    then have "q + 1 \<le> k" by simp
    then have "(q + 1) * m \<le> k * m" using assms by (simp only: mult_right_mono less_imp_le)
    then have "q * m + m \<le> k * m" by (simp add: distrib_right)
    with deq rm show "d < k * m" by linarith
  next
    assume lt: "d < k * m"
    show "q < k"
    proof (rule ccontr)
      assume "\<not> q < k"
      then have "k \<le> q" by simp
      then have "k * m \<le> q * m" using assms by (simp only: mult_right_mono less_imp_le)
      with deq r0 lt show False by linarith
    qed
  qed
  then show ?thesis by (simp only: q_def)
qed

lemma trunc_div_less_iff:
  assumes "0 < m" and "0 < k"
  shows "trunc_div d m < k \<longleftrightarrow> d < k * m"
proof (cases "d < 0")
  case True
  have "0 \<le> (- d) div m" using True assms by (simp add: pos_imp_zdiv_nonneg_iff)
  moreover have "0 < k * m" using assms by simp
  ultimately have "- ((- d) div m) < k" and "d < k * m" using True assms by linarith+
  then show ?thesis using True by (simp add: trunc_div_def)
next
  case False
  then show ?thesis using assms by (simp add: trunc_div_def int_div_less_iff)
qed

lemma trunc_div_greater_iff:
  assumes "0 < m" and "0 \<le> k"
  shows "k < trunc_div d m \<longleftrightarrow> (k + 1) * m \<le> d"
proof (cases "d < 0")
  case True
  have "0 \<le> (- d) div m" using True assms by (simp add: pos_imp_zdiv_nonneg_iff)
  moreover have "0 \<le> (k + 1) * m" using assms by simp
  ultimately have "\<not> k < - ((- d) div m)" and "\<not> (k + 1) * m \<le> d" using True assms by linarith+
  then show ?thesis using True by (simp add: trunc_div_def)
next
  case False
  have "k < d div m \<longleftrightarrow> \<not> d div m < k + 1" by auto
  also have "\<dots> \<longleftrightarrow> \<not> d < (k + 1) * m" using assms by (simp only: int_div_less_iff)
  finally show ?thesis using False by (simp add: trunc_div_def not_less)
qed

lemma trunc_div_lt_25: "trunc_div d 3600000 < 25 \<longleftrightarrow> d < 90000000"
  using trunc_div_less_iff [of 3600000 25 d] by simp

lemma trunc_div_gt_25: "25 < trunc_div d 3600000 \<longleftrightarrow> 93600000 \<le> d"
  using trunc_div_greater_iff [of 3600000 25 d] by simp

lemma trunc_div_lt_48: "trunc_div d 3600000 < 48 \<longleftrightarrow> d < 172800000"
  using trunc_div_less_iff [of 3600000 48 d] by simp

lemma trunc_div_gt_48: "48 < trunc_div d 3600000 \<longleftrightarrow> 176400000 \<le> d"
  using trunc_div_greater_iff [of 3600000 48 d] by simp

subsection \<open>The dashboard widgets\<close>

lemma key_toggleWidget: "map key (toggleWidget k ws) = map key ws"
  by (induction ws) (simp_all add: toggleWidget_def)

lemma keys_DEFAULT: "map key DEFAULT_WIDGETS =
  [''leads'', ''contacts'', ''deals'', ''actionItems'', ''performance'', ''quickActions'', ''leadStatus'']"
  by (simp add: DEFAULT_WIDGETS_def)

lemma key_initialWidgets: "map key (initialWidgets vis) = map key DEFAULT_WIDGETS"
  by (simp add: initialWidgets_def comp_def)

lemma key_fold_toggleWidget: "map key (fold toggleWidget ks ws) = map key ws"
  by (induction ks arbitrary: ws) (simp_all add: key_toggleWidget)

lemma handleSave_subseq_keys: "subseq (handleSave ws) (map key ws)"
  unfolding handleSave_def by (rule subseq_map) simp

lemma distinct_canonical: "distinct (map key DEFAULT_WIDGETS)"
  by (simp add: keys_DEFAULT)

text \<open>
  Claim C8. Whatever the \<open>visibleWidgets\<close> prop holds (any order, any foreign keys) and
  whatever keys are toggled afterwards, the list that \<open>handleSave\<close> hands to \<open>onSave\<close>
  is a subsequence of the seven canonical keys in the order of \<open>DEFAULT_WIDGETS\<close>, without
  duplicates; being a subsequence, it holds no key outside the seven.
\<close>

theorem handleSave_canonical:
  "subseq (handleSave (fold toggleWidget ks (initialWidgets visibleWidgets)))
     [''leads'', ''contacts'', ''deals'', ''actionItems'', ''performance'', ''quickActions'', ''leadStatus'']
   \<and> distinct (handleSave (fold toggleWidget ks (initialWidgets visibleWidgets)))"
proof -
  let ?ws = "fold toggleWidget ks (initialWidgets visibleWidgets)"
  have k: "map key ?ws = map key DEFAULT_WIDGETS"
    by (simp add: key_fold_toggleWidget key_initialWidgets)
  have s: "subseq (handleSave ?ws) (map key DEFAULT_WIDGETS)"
    using handleSave_subseq_keys [of ?ws] by (simp only: k)
  have "distinct (map key ?ws)" using distinct_canonical by (simp only: k)
  then have d: "distinct (handleSave ?ws)"
    unfolding handleSave_def by (rule distinct_map_filter)
  from s d show ?thesis by (simp only: keys_DEFAULT simp_thms)
qed

lemma toggleWidget_twice: "toggleWidget k (toggleWidget k ws) = ws"
  by (induction ws) (simp_all add: toggleWidget_def)

text \<open>
  Claim C9. \<open>toggleWidget k\<close> keeps the length and the order of the keys, flips the
  \<open>visible\<close> flag of the widgets whose key is \<open>k\<close> and leaves every other widget as it
  was; toggling the same key twice gives the list back.
\<close>

theorem toggleWidget_only_flag:
  "length (toggleWidget k ws) = length ws
   \<and> map key (toggleWidget k ws) = map key ws
   \<and> (\<forall>i < length ws.
        toggleWidget k ws ! i =
          (if key (ws ! i) = k then (ws ! i)\<lparr>visible := \<not> visible (ws ! i)\<rparr> else ws ! i))
   \<and> toggleWidget k (toggleWidget k ws) = ws"
  by (simp add: toggleWidget_twice key_toggleWidget) (simp add: toggleWidget_def)

theorem toggleWidget_only_flag_witness:
  "toggleWidget ''deals'' DEFAULT_WIDGETS ! 2 =
     \<lparr>key = ''deals'', label = ''My Deals'', icon = ''Briefcase'', visible = False\<rparr>
   \<and> toggleWidget ''deals'' DEFAULT_WIDGETS ! 3 =
     \<lparr>key = ''actionItems'', label = ''Action Items'', icon = ''Clock'', visible = True\<rparr>
   \<and> length (toggleWidget ''deals'' DEFAULT_WIDGETS) = 7
   \<and> toggleWidget ''deals'' (toggleWidget ''deals'' DEFAULT_WIDGETS) = DEFAULT_WIDGETS"
proof -
  have l: "length DEFAULT_WIDGETS = 7" by (simp add: DEFAULT_WIDGETS_def)
  have i2: "DEFAULT_WIDGETS ! 2 = \<lparr>key = ''deals'', label = ''My Deals'', icon = ''Briefcase'', visible = True\<rparr>"
    by (simp add: DEFAULT_WIDGETS_def)
  have i3: "DEFAULT_WIDGETS ! 3 = \<lparr>key = ''actionItems'', label = ''Action Items'', icon = ''Clock'', visible = True\<rparr>"
    by (simp add: DEFAULT_WIDGETS_def)
  note t = toggleWidget_only_flag [of "''deals''" DEFAULT_WIDGETS]
  from t have a: "\<forall>i < length DEFAULT_WIDGETS. toggleWidget ''deals'' DEFAULT_WIDGETS ! i =
          (if key (DEFAULT_WIDGETS ! i) = ''deals''
           then (DEFAULT_WIDGETS ! i)\<lparr>visible := \<not> visible (DEFAULT_WIDGETS ! i)\<rparr> else DEFAULT_WIDGETS ! i)"
    by blast
  have "toggleWidget ''deals'' DEFAULT_WIDGETS ! 2 =
     \<lparr>key = ''deals'', label = ''My Deals'', icon = ''Briefcase'', visible = False\<rparr>"
    using a [rule_format, of 2] by (simp add: l i2)
  moreover have "toggleWidget ''deals'' DEFAULT_WIDGETS ! 3 =
     \<lparr>key = ''actionItems'', label = ''Action Items'', icon = ''Clock'', visible = True\<rparr>"
    using a [rule_format, of 3] by (simp add: l i3)
  ultimately show ?thesis using t l by simp
qed

subsection \<open>The recency classifiers\<close>

lemma hoursSince_lt_168: "num_less (hoursSince now (Num t)) 168 \<longleftrightarrow> now - t < 604800000"
proof -
  have "(of_int (now - t) / 3600000 < (168::rat)) \<longleftrightarrow> (of_int (now - t) < (of_int 604800000 :: rat))"
    by (simp add: pos_divide_less_eq del: of_int_diff)
  also have "\<dots> \<longleftrightarrow> now - t < 604800000"
    by (rule of_int_less_iff)
  finally show ?thesis by (simp del: of_int_diff)
qed

lemma keepAliveBlock_valid:
  assumes "keepAliveTimestamp r = Some ts" and "ts \<noteq> []" and "parse ts = Num t"
  shows "keepAliveBlock parse now (Resolved r) =
           (if now - t < 90000000 then Active else if now - t < 172800000 then Warning else Error,
            Some ts)"
  using assms
  by (auto simp: keepAliveBlock_def keepAliveTimestamp_def trunc_div_lt_25 trunc_div_lt_48 Let_def
      split: option.splits)


lemma keepAliveBlock_missing:
  assumes "keepAliveTimestamp r = None"
  shows "keepAliveBlock parse now (Resolved r) = (Unknown, None)"
  using assms
  by (auto simp: keepAliveBlock_def keepAliveTimestamp_def Let_def split: option.splits)

lemma fetchSystemStats_keepAlive:
  assumes "profilesRead reads = Resolved p"
  shows "map_option keepAliveStatus (stats (fetchSystemStats parse now reads s)) =
           Some (fst (keepAliveBlock parse now (keepAliveRead reads)))"
  using assms by (simp add: fetchSystemStats_def Let_def)

lemma fetchKeepAliveStatus_valid:
  assumes "\<not> readFailed r" and "keepAliveTimestamp r = Some ts" and "ts \<noteq> []" and "parse ts = Num t"
  shows "fetchKeepAliveStatus parse now (Resolved r) =
           \<lparr>lastPing = Some ts,
            status = (if 176400000 \<le> now - t then Error
                      else if 93600000 \<le> now - t then Warning else Active),
            hoursAgo = Some (Num (trunc_div (now - t) 3600000))\<rparr>"
  using assms
  by (auto simp: fetchKeepAliveStatus_def keepAliveTimestamp_def trunc_div_gt_25 trunc_div_gt_48 Let_def
      split: option.splits)


lemma fetchKeepAliveStatus_missing:
  assumes "\<not> readFailed r" and "keepAliveTimestamp r = None"
  shows "fetchKeepAliveStatus parse now (Resolved r) =
           \<lparr>lastPing = None, status = Unknown, hoursAgo = None\<rparr>"
  using assms
  by (auto simp: fetchKeepAliveStatus_def keepAliveTimestamp_def Let_def split: option.splits)

lemma fetchKeepAliveStatus_empty:
  assumes "\<not> readFailed r" and "keepAliveTimestamp r = Some []"
  shows "fetchKeepAliveStatus parse now (Resolved r) =
           \<lparr>lastPing = None, status = Unknown, hoursAgo = None\<rparr>"
  using assms
  by (auto simp: fetchKeepAliveStatus_def keepAliveTimestamp_def Let_def split: option.splits)

lemma keepAliveBlock_empty:
  assumes "keepAliveTimestamp r = Some []"
  shows "keepAliveBlock parse now (Resolved r) = (Unknown, None)"
  using assms
  by (auto simp: keepAliveBlock_def keepAliveTimestamp_def Let_def split: option.splits)

lemma getStatus_valid_aux:
  assumes "activityTimestamp field res = Some ts" and "ts \<noteq> []" and "parse ts = Num t"
  shows "getStatus parse now res field =
           (if now - t < 604800000 then Active else Unknown, Some ts)"
  using assms
  by (auto simp: getStatus_def activityTimestamp_def hoursSince_lt_168 Let_def Let_def
      split: option.splits list.splits)


lemma getStatus_missing:
  assumes "activityTimestamp field res = None"
  shows "getStatus parse now res field = (Unknown, None)"
  using assms
  by (auto simp: getStatus_def activityTimestamp_def Let_def split: option.splits list.splits)

lemma keepAliveTimestamp_row [simp]: "keepAliveTimestamp \<lparr>data = Some (keepAliveRow ts), error = e, count = c\<rparr> = Some ts"
  by (simp add: keepAliveTimestamp_def keepAliveRow_def)

lemma readFailed_no_error [simp]: "\<not> readFailed \<lparr>data = d, error = None, count = c\<rparr>"
  by (simp add: readFailed_def)

lemma exampleParse_known [simp]: "exampleParse ''2024-03-10T12:30:00.000Z'' = Num 1710073800000"
  by (simp add: exampleParse_def)

lemma exampleParse_yesterday [simp]: "exampleParse ''yesterday'' = NaN"
  by (simp add: exampleParse_def)

text \<open>
  Claim C1. In \<open>fetchSystemStats\<close>, a keep-alive timestamp that parses is labelled by its
  age at the evaluation instant: \<open>active\<close> below 25 hours, \<open>warning\<close> from 25 hours up
  to, but not including, 48 hours, and \<open>error\<close> from 48 hours on.
\<close>

theorem keepAlive_sys_thresholds:
  assumes "keepAliveRead reads = Resolved r"
    and "keepAliveTimestamp r = Some ts" and "ts \<noteq> []" and "parse ts = Num t"
    and "profilesRead reads = Resolved p"
  shows "map_option keepAliveStatus (stats (fetchSystemStats parse now reads s)) =
           Some (if now - t < 25 * 3600000 then Active
                 else if now - t < 48 * 3600000 then Warning
                 else Error)"
  using assms by (simp add: fetchSystemStats_keepAlive keepAliveBlock_valid)

theorem keepAlive_sys_thresholds_witness:
  "map_option keepAliveStatus
     (stats (fetchSystemStats exampleParse (1710073800000 + 30 * 3600000)
        (exampleSysReads ''2024-03-10T12:30:00.000Z'') initialSysState)) = Some Warning"
  using keepAlive_sys_thresholds [of "exampleSysReads ''2024-03-10T12:30:00.000Z''"
      "\<lparr>data = Some (keepAliveRow ''2024-03-10T12:30:00.000Z''), error = None, count = None\<rparr>"
      "''2024-03-10T12:30:00.000Z''" exampleParse 1710073800000
      "\<lparr>data = None, error = None, count = Some 4\<rparr>" "1710073800000 + 30 * 3600000" initialSysState]
  by (simp add: exampleSysReads_def rowRead_def countRead_def)

text \<open>
  Claim C2. In \<open>fetchKeepAliveStatus\<close> the comparisons are \<^verbatim>\<open>hoursAgo > 48\<close> and
  \<^verbatim>\<open>hoursAgo > 25\<close> on whole hours: a ping that is 25 hours and 30 minutes old is still
  labelled \<open>active\<close>, where the claim, the warning text of the same component ("over 25
  hours ago") and the classifier of \<open>fetchSystemStats\<close> on the same row say \<open>warning\<close>.
\<close>

theorem cron_warning_starts_late:
  "status (fetchKeepAliveStatus exampleParse (1710073800000 + 91800000)
      (rowRead (keepAliveRow ''2024-03-10T12:30:00.000Z''))) = Active
   \<and> fst (keepAliveBlock exampleParse (1710073800000 + 91800000)
      (rowRead (keepAliveRow ''2024-03-10T12:30:00.000Z''))) = Warning"
  by (simp add: rowRead_def fetchKeepAliveStatus_valid [where t = 1710073800000]
      keepAliveBlock_valid [where t = 1710073800000])

text \<open>
  Claim C4. \<open>getStatus\<close> labels an activity timestamp that parses \<open>active\<close> when its
  age is below 168 hours and \<open>unknown\<close> otherwise, so also at exactly 168 hours.
\<close>

theorem getStatus_valid:
  assumes "activityTimestamp field res = Some ts" and "ts \<noteq> []" and "parse ts = Num t"
  shows "getStatus parse now res field =
           (if now - t < 168 * 3600000 then Active else Unknown, Some ts)"
  using assms by (simp add: getStatus_valid_aux)

lemma activityTimestamp_row [simp]:
  "activityTimestamp field \<lparr>data = Some (activityRow field ts # rest), error = e, count = c\<rparr> = Some ts"
  by (simp add: activityTimestamp_def activityRow_def)

theorem getStatus_valid_witness:
  "getStatus exampleParse (1710073800000 + 168 * 3600000)
     \<lparr>data = Some [activityRow ''created_at'' ''2024-03-10T12:30:00.000Z''], error = None, count = None\<rparr>
     ''created_at'' = (Unknown, Some ''2024-03-10T12:30:00.000Z'')
   \<and> getStatus exampleParse (1710073800000 + 168 * 3600000 - 1)
     \<lparr>data = Some [activityRow ''created_at'' ''2024-03-10T12:30:00.000Z''], error = None, count = None\<rparr>
     ''created_at'' = (Active, Some ''2024-03-10T12:30:00.000Z'')"
  using getStatus_valid [of "''created_at''"
      "\<lparr>data = Some [activityRow ''created_at'' ''2024-03-10T12:30:00.000Z''], error = None, count = None\<rparr>"
      "''2024-03-10T12:30:00.000Z''" exampleParse 1710073800000 "1710073800000 + 168 * 3600000"]
    getStatus_valid [of "''created_at''"
      "\<lparr>data = Some [activityRow ''created_at'' ''2024-03-10T12:30:00.000Z''], error = None, count = None\<rparr>"
      "''2024-03-10T12:30:00.000Z''" exampleParse 1710073800000 "1710073800000 + 168 * 3600000 - 1"]
  by simp




text \<open>
  Claim C5. A missing or null timestamp is labelled \<open>unknown\<close> at the three sites: when
  the keep-alive row is absent or its column is null, \<open>fetchSystemStats\<close> publishes
  \<open>unknown\<close> and \<open>fetchKeepAliveStatus\<close> sets \<open>unknown\<close> (the read having reported no
  error other than "no rows", which is what an empty collection gives); when the first row
  is absent or its column is null, \<open>getStatus\<close> returns \<open>unknown\<close>. The code has no
  threshold configuration; the parser and the instant are arbitrary.
\<close>

theorem missing_timestamp_unknown:
  "(keepAliveRead reads = Resolved r \<and> keepAliveTimestamp r = None \<and> profilesRead reads = Resolved p \<longrightarrow>
      map_option keepAliveStatus (stats (fetchSystemStats parse now reads s)) = Some Unknown)
   \<and> (keepAliveTimestamp r = None \<and> \<not> readFailed r \<longrightarrow>
      status (fetchKeepAliveStatus parse now (Resolved r)) = Unknown)
   \<and> (activityTimestamp field res = None \<longrightarrow>
      fst (getStatus parse now res field) = Unknown)"
  by (simp add: fetchSystemStats_keepAlive keepAliveBlock_missing fetchKeepAliveStatus_missing
      getStatus_missing)

lemma keepAliveTimestamp_no_row [simp]:
  "keepAliveTimestamp \<lparr>data = None, error = e, count = c\<rparr> = None"
  by (simp add: keepAliveTimestamp_def)

lemma activityTimestamp_no_rows [simp]:
  "activityTimestamp field \<lparr>data = Some [], error = e, count = c\<rparr> = None"
  by (simp add: activityTimestamp_def)

lemma readFailed_no_rows [simp]: "\<not> readFailed (errorResponse ''PGRST116'' m)"
  by (simp add: readFailed_def errorResponse_def)

theorem missing_timestamp_unknown_witness:
  "map_option keepAliveStatus
     (stats (fetchSystemStats exampleParse 1710073800000
        ((exampleSysReads ''2024-03-10T12:30:00.000Z'')
           \<lparr>keepAliveRead := Resolved (errorResponse ''PGRST116'' ''no rows'')\<rparr>)
        initialSysState)) = Some Unknown
   \<and> status (fetchKeepAliveStatus exampleParse 1710073800000
        (Resolved (errorResponse ''PGRST116'' ''no rows''))) = Unknown
   \<and> fst (getStatus exampleParse 1710073800000
        \<lparr>data = Some [], error = None, count = None\<rparr> ''created_at'') = Unknown"
proof -
  have t: "keepAliveTimestamp (errorResponse ''PGRST116'' ''no rows'' :: row response) = None"
    by (simp add: errorResponse_def)
  show ?thesis
    using missing_timestamp_unknown [of
        "(exampleSysReads ''2024-03-10T12:30:00.000Z'')
           \<lparr>keepAliveRead := Resolved (errorResponse ''PGRST116'' ''no rows'')\<rparr>"
        "errorResponse ''PGRST116'' ''no rows''"
        "\<lparr>data = None, error = None, count = Some 4\<rparr>" exampleParse 1710073800000 initialSysState
        "''created_at''" "\<lparr>data = Some [], error = None, count = None\<rparr>"]
    by (simp add: t exampleSysReads_def countRead_def)
qed

lemma keepAliveBlock_timestamp:
  assumes "keepAliveTimestamp r = keepAliveTimestamp r'"
  shows "keepAliveBlock parse now (Resolved r) = keepAliveBlock parse now (Resolved r')"
  using assms
  by (auto simp: keepAliveBlock_def keepAliveTimestamp_def Let_def split: option.splits)

lemma fetchKeepAliveStatus_timestamp:
  assumes "keepAliveTimestamp r = keepAliveTimestamp r'" and "\<not> readFailed r" and "\<not> readFailed r'"
  shows "fetchKeepAliveStatus parse now (Resolved r) = fetchKeepAliveStatus parse now (Resolved r')"
  using assms
  by (auto simp: fetchKeepAliveStatus_def keepAliveTimestamp_def Let_def split: option.splits)

text \<open>
  Claim C7. The label is a function of the timestamp and the evaluation instant alone
  (and of the host's date parser). Two runs of \<open>fetchSystemStats\<close> at the same instant
  whose keep-alive reads carry the same timestamp (or both none) publish the same
  \<open>keepAliveStatus\<close>, whatever the earlier component states, the other reads and the
  other columns and fields of the keep-alive read are; two runs of
  \<open>fetchKeepAliveStatus\<close> that reach the classifier set the same state.
\<close>

theorem classifier_deterministic:
  assumes "keepAliveTimestamp r = keepAliveTimestamp r'"
  shows "(keepAliveRead reads = Resolved r \<and> keepAliveRead reads' = Resolved r'
            \<and> profilesRead reads = Resolved p \<and> profilesRead reads' = Resolved p' \<longrightarrow>
          map_option keepAliveStatus (stats (fetchSystemStats parse now reads s)) =
          map_option keepAliveStatus (stats (fetchSystemStats parse now reads' s')))
       \<and> (\<not> readFailed r \<and> \<not> readFailed r' \<longrightarrow>
          fetchKeepAliveStatus parse now (Resolved r) = fetchKeepAliveStatus parse now (Resolved r'))"
proof (intro conjI impI)
  assume a: "keepAliveRead reads = Resolved r \<and> keepAliveRead reads' = Resolved r'
            \<and> profilesRead reads = Resolved p \<and> profilesRead reads' = Resolved p'"
  have "map_option keepAliveStatus (stats (fetchSystemStats parse now reads s)) =
          Some (fst (keepAliveBlock parse now (Resolved r)))"
    using a fetchSystemStats_keepAlive [of reads p parse now s] by simp
  moreover have "map_option keepAliveStatus (stats (fetchSystemStats parse now reads' s')) =
          Some (fst (keepAliveBlock parse now (Resolved r')))"
    using a fetchSystemStats_keepAlive [of reads' p' parse now s'] by simp
  moreover have "keepAliveBlock parse now (Resolved r) = keepAliveBlock parse now (Resolved r')"
    using assms by (rule keepAliveBlock_timestamp)
  ultimately show "map_option keepAliveStatus (stats (fetchSystemStats parse now reads s)) =
          map_option keepAliveStatus (stats (fetchSystemStats parse now reads' s'))"
    by (simp only:)
next
  assume "\<not> readFailed r \<and> \<not> readFailed r'"
  then show "fetchKeepAliveStatus parse now (Resolved r) = fetchKeepAliveStatus parse now (Resolved r')"
    using assms by (blast intro: fetchKeepAliveStatus_timestamp)
qed

theorem classifier_deterministic_witness:
  "map_option keepAliveStatus
     (stats (fetchSystemStats exampleParse (1710073800000 + 30 * 3600000)
        (exampleSysReads ''2024-03-10T12:30:00.000Z'') initialSysState)) =
   map_option keepAliveStatus
     (stats (fetchSystemStats exampleParse (1710073800000 + 30 * 3600000)
        ((exampleSysReads ''2024-03-10T12:30:00.000Z'')
           \<lparr>backupRead := Rejected ''timeout'',
            keepAliveRead := Resolved \<lparr>data = Some (keepAliveRow ''2024-03-10T12:30:00.000Z''),
                                         error = None, count = Some 1\<rparr>\<rparr>)
        (initialSysState\<lparr>lastRefresh := 5, autoRefresh := True\<rparr>)))
   \<and> fetchKeepAliveStatus exampleParse (1710073800000 + 30 * 3600000)
        (Resolved \<lparr>data = Some (keepAliveRow ''2024-03-10T12:30:00.000Z''), error = None, count = None\<rparr>) =
     fetchKeepAliveStatus exampleParse (1710073800000 + 30 * 3600000)
        (Resolved \<lparr>data = Some (keepAliveRow ''2024-03-10T12:30:00.000Z''), error = None, count = Some 1\<rparr>)"
  using classifier_deterministic [of
      "\<lparr>data = Some (keepAliveRow ''2024-03-10T12:30:00.000Z''), error = None, count = None\<rparr>"
      "\<lparr>data = Some (keepAliveRow ''2024-03-10T12:30:00.000Z''), error = None, count = Some 1\<rparr>"
      "exampleSysReads ''2024-03-10T12:30:00.000Z''"
      "(exampleSysReads ''2024-03-10T12:30:00.000Z'')
           \<lparr>backupRead := Rejected ''timeout'',
            keepAliveRead := Resolved \<lparr>data = Some (keepAliveRow ''2024-03-10T12:30:00.000Z''),
                                         error = None, count = Some 1\<rparr>\<rparr>"
      "\<lparr>data = None, error = None, count = Some 4\<rparr>"
      "\<lparr>data = None, error = None, count = Some 4\<rparr>"
      exampleParse "1710073800000 + 30 * 3600000" initialSysState
      "initialSysState\<lparr>lastRefresh := 5, autoRefresh := True\<rparr>"]
  by (simp add: exampleSysReads_def rowRead_def countRead_def)

subsection \<open>The table statistics\<close>

lemma js_add_exact: "\<bar>a + b\<bar> \<le> 9007199254740992 \<Longrightarrow> js_add a b = a + b"
  by (simp add: js_add_def round_double_def)

lemma fold_js_add:
  assumes "\<forall>t \<in> set ts. 0 \<le> row_count t" and "0 \<le> a"
    and "a + sum_list (map row_count ts) \<le> 9007199254740992"
  shows "fold (\<lambda>result acc. js_add acc (row_count result)) ts a = a + sum_list (map row_count ts)"
  using assms
proof (induction ts arbitrary: a)
  case Nil
  then show ?case by simp
next
  case (Cons t ts)
  have rest: "0 \<le> sum_list (map row_count ts)"
    using Cons.prems(1) by (intro sum_list_nonneg) auto
  have t0: "0 \<le> row_count t" using Cons.prems(1) by simp
  have "\<bar>a + row_count t\<bar> \<le> 9007199254740992"
    using Cons.prems(2,3) rest t0 by simp
  then have step: "js_add a (row_count t) = a + row_count t" by (rule js_add_exact)
  have "fold (\<lambda>result acc. js_add acc (row_count result)) ts (a + row_count t) =
          (a + row_count t) + sum_list (map row_count ts)"
    using Cons.prems t0 by (intro Cons.IH) simp_all
  then show ?case by (simp add: step)
qed

lemma bitlen_above: "bitlen 9007199254740993 = 54"
  by code_simp

lemma js_add_rounds: "js_add 9007199254740992 1 = 9007199254740992"
  by (simp add: js_add_def round_double_def bitlen_above Let_def)

lemma sum_list_sort_key:
  "sum_list (map row_count (sort_key g xs)) = sum_list (map row_count xs)"
proof -
  have "mset (map row_count (sort_key g xs)) = mset (map row_count xs)" by simp
  then have "sum_mset (mset (map row_count (sort_key g xs))) = sum_mset (mset (map row_count xs))"
    by (simp only:)
  then show ?thesis by (simp only: sum_mset_sum_list)
qed

lemma sorted_wrt_desc_sort_key:
  "sorted_wrt (\<lambda>a b. row_count b \<le> row_count a) (sort_key (\<lambda>t. - row_count t) ts)"
proof -
  have "sorted (map (\<lambda>t. - row_count t) (sort_key (\<lambda>t. - row_count t) ts))"
    by (rule sorted_sort_key)
  then show ?thesis by (simp add: sorted_map)
qed

lemma table_name_countTable: "table_name (fst (countTable c res)) = cfg_name c"
  by (simp add: countTable_def split: outcome.splits option.splits)

lemma names_TABLE_CONFIG: "map cfg_name TABLE_CONFIG =
  [''leads'', ''contacts'', ''accounts'', ''deals'', ''meetings'', ''tasks'', ''email_history'',
   ''profiles'', ''notifications'']"
  by (simp add: TABLE_CONFIG_def)

lemma fetchSystemStats_failure:
  "profilesRead reads = Rejected msg \<Longrightarrow> fetchError (fetchSystemStats parse now reads s) \<noteq> None"
  by (simp add: fetchSystemStats_def Let_def)

lemma fetchSystemStats_stats:
  assumes "profilesRead reads = Resolved p"
  shows "\<exists>st. stats (fetchSystemStats parse now reads s) = Some st
      \<and> tables st = sort_key (\<lambda>t. - row_count t)
           (map (\<lambda>config. fst (countTable config (countReads reads (cfg_name config)))) TABLE_CONFIG)
      \<and> totalRecords st = fold (\<lambda>result acc. js_add acc (row_count result))
           (map (\<lambda>config. fst (countTable config (countReads reads (cfg_name config)))) TABLE_CONFIG) 0
      \<and> queryErrors st = concat
           (map (\<lambda>config. snd (countTable config (countReads reads (cfg_name config)))) TABLE_CONFIG)"
  using assms by (simp add: fetchSystemStats_def Let_def comp_def)


lemma distinct_map_sort_key:
  "distinct (map f (sort_key g xs)) \<longleftrightarrow> distinct (map f xs)"
proof -
  have "mset (map f (sort_key g xs)) = mset (map f xs)" by simp
  then show ?thesis by (rule mset_eq_imp_distinct_iff)
qed



lemma hugeRows:
  "map (\<lambda>config. fst (countTable config (countReads hugeSysReads (cfg_name config)))) TABLE_CONFIG =
     [\<lparr>table_name = ''leads'', row_count = 9007199254740992, stat_icon = ''FileText''\<rparr>,
      \<lparr>table_name = ''contacts'', row_count = 1, stat_icon = ''Users''\<rparr>,
      \<lparr>table_name = ''accounts'', row_count = 0, stat_icon = ''Building2''\<rparr>,
      \<lparr>table_name = ''deals'', row_count = 0, stat_icon = ''Table2''\<rparr>,
      \<lparr>table_name = ''meetings'', row_count = 0, stat_icon = ''Calendar''\<rparr>,
      \<lparr>table_name = ''tasks'', row_count = 0, stat_icon = ''CheckCircle''\<rparr>,
      \<lparr>table_name = ''email_history'', row_count = 0, stat_icon = ''Mail''\<rparr>,
      \<lparr>table_name = ''profiles'', row_count = 0, stat_icon = ''UserCheck''\<rparr>,
      \<lparr>table_name = ''notifications'', row_count = 0, stat_icon = ''Bell''\<rparr>]"
  by (simp add: TABLE_CONFIG_def hugeSysReads_def hugeCounts_def countRead_def countTable_def)

text \<open>
  Claim C10 does not hold as stated for the total. \<open>totalRecords\<close> is accumulated with
  the addition of doubles: when the first table reports \<open>2^53\<close> rows and the second one
  row, the second addition rounds back to \<open>2^53\<close>, one less than the sum of the
  \<open>row_count\<close>s of the published tables.
\<close>

theorem totalRecords_rounds:
  "map_option totalRecords
     (stats (fetchSystemStats exampleParse 1710073800000 hugeSysReads initialSysState))
     = Some 9007199254740992
   \<and> map_option sumOfRows
     (stats (fetchSystemStats exampleParse 1710073800000 hugeSysReads initialSysState))
     = Some 9007199254740993"
proof -
  have p: "profilesRead hugeSysReads = Resolved \<lparr>data = None, error = None, count = Some 4\<rparr>"
    by (simp add: hugeSysReads_def countRead_def)
  obtain st where st: "stats (fetchSystemStats exampleParse 1710073800000 hugeSysReads initialSysState) = Some st"
      and tb: "tables st = sort_key (\<lambda>t. - row_count t)
           (map (\<lambda>config. fst (countTable config (countReads hugeSysReads (cfg_name config)))) TABLE_CONFIG)"
      and tot: "totalRecords st = fold (\<lambda>result acc. js_add acc (row_count result))
           (map (\<lambda>config. fst (countTable config (countReads hugeSysReads (cfg_name config)))) TABLE_CONFIG) 0"
    using fetchSystemStats_stats [OF p, of exampleParse 1710073800000 initialSysState] by blast
  have "totalRecords st = 9007199254740992"
    by (simp add: tot hugeRows js_add_rounds js_add_exact)
  moreover have "sumOfRows st = 9007199254740993"
    by (simp add: sumOfRows_def tb sum_list_sort_key hugeRows)
  ultimately show ?thesis by (simp add: st)
qed

text \<open>
  Claim C10, amended. After a run of \<open>fetchSystemStats\<close> that completes (no error text is
  set), the published statistics hold one entry for each of the nine configured tables, in
  non-increasing order of \<open>row_count\<close>; and \<open>totalRecords\<close> is the sum of their
  \<open>row_count\<close>s whenever these are not negative and their sum is at most \<open>2^53\<close>, the
  range in which the additions of doubles are exact.
\<close>

theorem fetchSystemStats_tables:
  assumes "fetchError (fetchSystemStats parse now reads s) = None"
  shows "\<exists>st. stats (fetchSystemStats parse now reads s) = Some st
      \<and> length (tables st) = 9
      \<and> mset (map table_name (tables st)) = mset (map cfg_name TABLE_CONFIG)
      \<and> distinct (map table_name (tables st))
      \<and> sorted_wrt (\<lambda>a b. row_count b \<le> row_count a) (tables st)
      \<and> ((\<forall>t \<in> set (tables st). 0 \<le> row_count t)
           \<and> sum_list (map row_count (tables st)) \<le> 9007199254740992 \<longrightarrow>
         totalRecords st = sum_list (map row_count (tables st)))"
proof -
  obtain p where p: "profilesRead reads = Resolved p"
    using assms fetchSystemStats_failure [of reads _ parse now s]
    by (cases "profilesRead reads") auto
  let ?raw = "map (\<lambda>config. fst (countTable config (countReads reads (cfg_name config)))) TABLE_CONFIG"
  obtain st where st: "stats (fetchSystemStats parse now reads s) = Some st"
      and tb: "tables st = sort_key (\<lambda>t. - row_count t) ?raw"
      and tot: "totalRecords st = fold (\<lambda>result acc. js_add acc (row_count result)) ?raw 0"
    using fetchSystemStats_stats [OF p, of parse now s] by blast
  have names: "map table_name ?raw = map cfg_name TABLE_CONFIG"
    by (simp add: comp_def table_name_countTable)
  have m: "mset (map table_name (tables st)) = mset (map cfg_name TABLE_CONFIG)"
  proof -
    have "mset (map table_name (tables st)) = mset (map table_name ?raw)"
      by (simp only: tb mset_map mset_sort)
    then show ?thesis by (simp only: names)
  qed
  have l: "length (tables st) = 9"
    by (simp add: tb TABLE_CONFIG_def)
  have d: "distinct (map table_name (tables st))"
  proof -
    have "distinct (map cfg_name TABLE_CONFIG)" by (simp add: names_TABLE_CONFIG)
    then have "distinct (map table_name ?raw)" by (simp only: names)
    then show ?thesis by (simp only: tb distinct_map_sort_key)
  qed
  have so: "sorted_wrt (\<lambda>a b. row_count b \<le> row_count a) (tables st)"
    by (simp only: tb sorted_wrt_desc_sort_key)
  have su: "(\<forall>t \<in> set (tables st). 0 \<le> row_count t)
           \<and> sum_list (map row_count (tables st)) \<le> 9007199254740992 \<longrightarrow>
         totalRecords st = sum_list (map row_count (tables st))"
  proof
    assume b: "(\<forall>t \<in> set (tables st). 0 \<le> row_count t)
           \<and> sum_list (map row_count (tables st)) \<le> 9007199254740992"
    have eq: "sum_list (map row_count (tables st)) = sum_list (map row_count ?raw)"
      by (simp only: tb sum_list_sort_key)
    have "\<forall>t \<in> set ?raw. 0 \<le> row_count t"
      using b by (simp only: tb set_sort) blast
    moreover have "0 + sum_list (map row_count ?raw) \<le> 9007199254740992"
      using b eq by simp
    ultimately have "fold (\<lambda>result acc. js_add acc (row_count result)) ?raw 0 =
        0 + sum_list (map row_count ?raw)"
      by (intro fold_js_add) simp_all
    then show "totalRecords st = sum_list (map row_count (tables st))"
      by (simp add: tot eq)
  qed
  from st l m d so su show ?thesis by blast
qed

lemma fetchError_example:
  "fetchError (fetchSystemStats exampleParse 1710073800000
      (exampleSysReads ''2024-03-10T12:30:00.000Z'') initialSysState) = None"
  by (simp add: fetchSystemStats_def exampleSysReads_def countRead_def Let_def)

lemma exampleRows:
  "map (\<lambda>config. fst (countTable config
          (countReads (exampleSysReads ''2024-03-10T12:30:00.000Z'') (cfg_name config)))) TABLE_CONFIG =
     [\<lparr>table_name = ''leads'', row_count = 12, stat_icon = ''FileText''\<rparr>,
      \<lparr>table_name = ''contacts'', row_count = 0, stat_icon = ''Users''\<rparr>,
      \<lparr>table_name = ''accounts'', row_count = 0, stat_icon = ''Building2''\<rparr>,
      \<lparr>table_name = ''deals'', row_count = 0, stat_icon = ''Table2''\<rparr>,
      \<lparr>table_name = ''meetings'', row_count = 0, stat_icon = ''Calendar''\<rparr>,
      \<lparr>table_name = ''tasks'', row_count = 30, stat_icon = ''CheckCircle''\<rparr>,
      \<lparr>table_name = ''email_history'', row_count = 0, stat_icon = ''Mail''\<rparr>,
      \<lparr>table_name = ''profiles'', row_count = 0, stat_icon = ''UserCheck''\<rparr>,
      \<lparr>table_name = ''notifications'', row_count = 0, stat_icon = ''Bell''\<rparr>]"
  by (simp add: TABLE_CONFIG_def exampleSysReads_def exampleCounts_def countRead_def
      errorResponse_def countTable_def)

theorem fetchSystemStats_tables_witness:
  "fetchError (fetchSystemStats exampleParse 1710073800000
      (exampleSysReads ''2024-03-10T12:30:00.000Z'') initialSysState) = None
   \<and> (\<exists>st. stats (fetchSystemStats exampleParse 1710073800000
             (exampleSysReads ''2024-03-10T12:30:00.000Z'') initialSysState) = Some st
      \<and> length (tables st) = 9
      \<and> mset (map table_name (tables st)) = mset (map cfg_name TABLE_CONFIG)
      \<and> distinct (map table_name (tables st))
      \<and> sorted_wrt (\<lambda>a b. row_count b \<le> row_count a) (tables st)
      \<and> sum_list (map row_count (tables st)) = 42
      \<and> totalRecords st = 42)"
proof -
  let ?reads = "exampleSysReads ''2024-03-10T12:30:00.000Z''"
  have p: "profilesRead ?reads = Resolved \<lparr>data = None, error = None, count = Some 4\<rparr>"
    by (simp add: exampleSysReads_def countRead_def)
  obtain st where st: "stats (fetchSystemStats exampleParse 1710073800000 ?reads initialSysState) = Some st"
      and rest: "length (tables st) = 9"
        "mset (map table_name (tables st)) = mset (map cfg_name TABLE_CONFIG)"
        "distinct (map table_name (tables st))"
        "sorted_wrt (\<lambda>a b. row_count b \<le> row_count a) (tables st)"
      and su: "(\<forall>t \<in> set (tables st). 0 \<le> row_count t)
           \<and> sum_list (map row_count (tables st)) \<le> 9007199254740992 \<longrightarrow>
         totalRecords st = sum_list (map row_count (tables st))"
    using fetchSystemStats_tables [OF fetchError_example] by blast
  obtain st' where st': "stats (fetchSystemStats exampleParse 1710073800000 ?reads initialSysState) = Some st'"
      and tb: "tables st' = sort_key (\<lambda>t. - row_count t)
           (map (\<lambda>config. fst (countTable config (countReads ?reads (cfg_name config)))) TABLE_CONFIG)"
    using fetchSystemStats_stats [OF p, of exampleParse 1710073800000 initialSysState] by blast
  have same: "st' = st" using st st' by simp
  have sum: "sum_list (map row_count (tables st)) = 42"
    using tb by (simp add: same sum_list_sort_key exampleRows)
  have nonneg: "\<forall>t \<in> set (tables st). 0 \<le> row_count t"
    using tb by (simp add: same exampleRows)
  have "totalRecords st = 42" using su sum nonneg by simp
  with st rest sum fetchError_example show ?thesis by blast
qed

subsection \<open>Failed reads\<close>












end
